theory Spec2Isabelle
  imports Main "HOL-Library.Sublist"
begin

section \<open>Data model of the crawler\<close>

text \<open>
  Go errors. \<open>Errorf prefix err\<close> is \<^verbatim>\<open>fmt.Errorf(prefix + "%w", err)\<close>: an error that wraps
  \<open>err\<close> and whose message is \<open>prefix\<close> followed by the message of \<open>err\<close>. The two context
  errors are what \<^verbatim>\<open>ctx.Err()\<close> returns once \<^verbatim>\<open>ctx.Done()\<close> is closed;
  \<open>ErrRawFileNotFound\<close> is the sentinel of the gitlab package; \<open>ErrorString\<close> is any
  other error of a collaborator.
\<close>

datatype error =
    ErrRawFileNotFound
  | Canceled
  | DeadlineExceeded
  | ErrorString string
  | Errorf string error

text \<open>\<^verbatim>\<open>errors.Is(err, target)\<close>: \<open>err\<close> or an error it wraps is \<open>target\<close>.\<close>

fun errors_Is :: "error \<Rightarrow> error \<Rightarrow> bool" where
  "errors_Is (Errorf msg err) target = (Errorf msg err = target \<or> errors_Is err target)"
| "errors_Is err target = (err = target)"

text \<open>\<^verbatim>\<open>gitlab.Project\<close>, with the three fields the crawler reads.\<close>

record gitlab_Project =
  ID :: int
  PathWithNamespace :: string
  DefaultBranch :: string

text \<open>
  \<^verbatim>\<open>RemoteInclude\<close>: the target project, the ref, the included files and the includes found
  one fetch deeper.
\<close>

datatype RemoteInclude =
  RemoteInclude (Project: string) (Ref: string) (Files: "string list")
    (Children: "RemoteInclude list")

text \<open>\<^verbatim>\<open>storage.IncludeEdge\<close>.\<close>

datatype IncludeEdge =
  IncludeEdge (SourceProject: string) (TargetProject: string) (EdgeRef: string)
    (EdgeFiles: "string list")

text \<open>
  The collaborators (storage, GitLab client) are interfaces of other packages. Every call
  the crawler makes to them is recorded, with its arguments and its result, in the order
  it is made.
\<close>

datatype event =
    EvRemoveAll "error option"
  | EvCreateProjectNode string "error option"
  | EvCreateIncludeEdge IncludeEdge "error option"
  | EvGetRawFileFromProject int string string "error + string"

text \<open>Entries written through the zerolog logger: level, attached error, fields, message.\<close>

datatype level = Info | Warn | Err

datatype field = StrField string string | IntField string int

datatype log_entry = Log level "error option" "field list" string

text \<open>
  The mutable part of \<^verbatim>\<open>Crawler\<close>: the visited set \<^verbatim>\<open>projectSet\<close>
  (a \<^verbatim>\<open>map[string]struct{}\<close>), together with the calls made so far and the log written
  so far. The consumer side of the crawler is single-threaded, so the mutex
  \<^verbatim>\<open>projectSetMut\<close> has no effect on it and is not modelled.
\<close>

record crawler =
  projectSet :: "string set"
  calls :: "event list"
  logs :: "log_entry list"

text \<open>
  A context, as the crawler observes it: \<open>ctx h\<close> is \<^verbatim>\<open>ctx.Err()\<close> at the moment the calls
  \<open>h\<close> have been made: \<open>None\<close> while \<^verbatim>\<open>ctx.Done()\<close> is open.
\<close>

type_synonym Context = "event list \<Rightarrow> error option"

text \<open>
  The configuration and the collaborators. A collaborator answers a call as a function of
  the calls made before it and of the call's arguments. \<open>parseIncludes\<close> and
  \<open>enrichIncludes\<close> are methods of the crawler defined in another file of the package;
  they are parameters here.
\<close>

record env =
  StorageCleanup :: bool
  DefaultRefName :: string
  storage_RemoveAll :: "event list \<Rightarrow> error option"
  storage_CreateProjectNode :: "event list \<Rightarrow> string \<Rightarrow> error option"
  storage_CreateIncludeEdge :: "event list \<Rightarrow> IncludeEdge \<Rightarrow> error option"
  gitlab_GetRawFileFromProject ::
    "event list \<Rightarrow> Context \<Rightarrow> int \<Rightarrow> string \<Rightarrow> string \<Rightarrow> error + string"
  parseIncludes :: "event list \<Rightarrow> string \<Rightarrow> error + RemoteInclude list"
  enrichIncludes ::
    "event list \<Rightarrow> RemoteInclude list \<Rightarrow> gitlab_Project \<Rightarrow> string \<Rightarrow> RemoteInclude list"

definition gitlabCIFileName :: string where
  "gitlabCIFileName = ''.gitlab-ci.yml''"

section \<open>Calls to the collaborators\<close>

definition RemoveAll :: "env \<Rightarrow> crawler \<Rightarrow> error option \<times> crawler" where
  "RemoveAll e s =
     (let r = storage_RemoveAll e (calls s)
      in (r, s\<lparr>calls := calls s @ [EvRemoveAll r]\<rparr>))"

definition CreateProjectNode :: "env \<Rightarrow> string \<Rightarrow> crawler \<Rightarrow> error option \<times> crawler" where
  "CreateProjectNode e path s =
     (let r = storage_CreateProjectNode e (calls s) path
      in (r, s\<lparr>calls := calls s @ [EvCreateProjectNode path r]\<rparr>))"

definition CreateIncludeEdge :: "env \<Rightarrow> IncludeEdge \<Rightarrow> crawler \<Rightarrow> error option \<times> crawler" where
  "CreateIncludeEdge e edge s =
     (let r = storage_CreateIncludeEdge e (calls s) edge
      in (r, s\<lparr>calls := calls s @ [EvCreateIncludeEdge edge r]\<rparr>))"

definition GetRawFileFromProject ::
  "env \<Rightarrow> Context \<Rightarrow> int \<Rightarrow> string \<Rightarrow> string \<Rightarrow> crawler \<Rightarrow> (error + string) \<times> crawler" where
  "GetRawFileFromProject e ctx pid file ref s =
     (let r = gitlab_GetRawFileFromProject e (calls s) ctx pid file ref
      in (r, s\<lparr>calls := calls s @ [EvGetRawFileFromProject pid file ref r]\<rparr>))"

definition logger :: "log_entry \<Rightarrow> crawler \<Rightarrow> crawler" where
  "logger entry s = s\<lparr>logs := logs s @ [entry]\<rparr>"

text \<open>\<^verbatim>\<open>strings.Join\<close>.\<close>

fun strings_Join :: "string list \<Rightarrow> string \<Rightarrow> string" where
  "strings_Join [] sep = []"
| "strings_Join [x] sep = x"
| "strings_Join (x # y # ys) sep = x @ sep @ strings_Join (y # ys) sep"

text \<open>The verb \<^verbatim>\<open>%d\<close> of the fmt package: an integer in decimal.\<close>

fun dec_nat :: "nat \<Rightarrow> string" where
  "dec_nat n =
     (if n < 10 then [''0123456789'' ! n]
      else dec_nat (n div 10) @ [''0123456789'' ! (n mod 10)])"

declare dec_nat.simps [simp del]

definition fmt_d :: "int \<Rightarrow> string" where
  "fmt_d i = (if i < 0 then CHR ''-'' # dec_nat (nat (- i)) else dec_nat (nat i))"

section \<open>The graph persister: traverseIncludes\<close>

text \<open>
  \<open>traverseIncludes\<close> marks the include's project visited, creates its node, creates the
  edge from \<open>parentName\<close>, and then runs the loop over \<^verbatim>\<open>include.Children\<close>, which is
  \<open>traverseChildren\<close>. The loop calls \<open>traverseIncludes\<close> with \<^verbatim>\<open>ci.Project\<close> as the
  parent name and stops at the first child that fails.
\<close>

fun traverseIncludes :: "env \<Rightarrow> string \<Rightarrow> RemoteInclude \<Rightarrow> crawler \<Rightarrow> error option \<times> crawler"
  and traverseChildren :: "env \<Rightarrow> RemoteInclude list \<Rightarrow> crawler \<Rightarrow> error option \<times> crawler"
where
  "traverseIncludes e parentName (RemoteInclude project ref files children) s =
     (case CreateProjectNode e project (s\<lparr>projectSet := insert project (projectSet s)\<rparr>) of
        (Some err, s1) \<Rightarrow> (Some (Errorf ''failed to write project to neo4j: '' err), s1)
      | (None, s1) \<Rightarrow>
          (case CreateIncludeEdge e (IncludeEdge parentName project ref files) s1 of
             (Some err, s2) \<Rightarrow> (Some (Errorf ''failed to write neo4j transaction: '' err), s2)
           | (None, s2) \<Rightarrow> traverseChildren e children s2))"
| "traverseChildren e [] s = (None, s)"
| "traverseChildren e (ci # cis) s =
     (case traverseIncludes e (Project ci) ci s of
        (Some err, s1) \<Rightarrow>
          (Some (Errorf (''failed to write child includes for '' @ Project ci @ '': '') err), s1)
      | (None, s1) \<Rightarrow> traverseChildren e cis s1)"

section \<open>The project processor: updateProjectInGraph\<close>

text \<open>
  The loop over the enriched top-level includes: a warning for an empty ref, then
  \<open>traverseIncludes\<close> with the project's path as parent; an error is logged and the loop
  goes on.
\<close>

fun includes_loop :: "env \<Rightarrow> string \<Rightarrow> RemoteInclude list \<Rightarrow> crawler \<Rightarrow> crawler" where
  "includes_loop e path [] s = s"
| "includes_loop e path (i # is) s =
     (let s0 = (if Ref i = []
                then logger (Log Warn None
                       [StrField ''Project'' (Project i), StrField ''Files'' (strings_Join (Files i) '','')]
                       ''Got empty ref'') s
                else s)
      in case traverseIncludes e path i s0 of
           (Some err, s1) \<Rightarrow>
             includes_loop e path is
               (logger (Log Err (Some err) [StrField ''Project'' (Project i)]
                  ''failed to parse include'') s1)
         | (None, s1) \<Rightarrow> includes_loop e path is s1)"

definition updateProjectInGraph ::
  "env \<Rightarrow> Context \<Rightarrow> gitlab_Project \<Rightarrow> crawler \<Rightarrow> error option \<times> crawler" where
  "updateProjectInGraph e ctx project s =
     (case ctx (calls s) of
        Some cerr \<Rightarrow> (Some cerr, s)
      | None \<Rightarrow>
          if PathWithNamespace project \<in> projectSet s then (None, s)
          else
            (case CreateProjectNode e (PathWithNamespace project)
                    (s\<lparr>projectSet := insert (PathWithNamespace project) (projectSet s)\<rparr>) of
               (Some err, s1) \<Rightarrow> (Some (Errorf ''failed to write project to neo4j: '' err), s1)
             | (None, s1) \<Rightarrow>
                 (case GetRawFileFromProject e ctx (ID project) gitlabCIFileName
                         (DefaultBranch project) s1 of
                    (Inl err, s2) \<Rightarrow>
                      if errors_Is err ErrRawFileNotFound then (None, s2)
                      else (Some (Errorf (''failed to get file '' @ gitlabCIFileName @ '': '') err),
                            s2)
                  | (Inr gitlabCIFile, s2) \<Rightarrow>
                      (case parseIncludes e (calls s2) gitlabCIFile of
                         Inl err \<Rightarrow>
                           (Some (Errorf (''failed to parse includes for '' @ fmt_d (ID project)
                                            @ '': '') err), s2)
                       | Inr includes \<Rightarrow>
                           (None,
                            includes_loop e (PathWithNamespace project)
                              (enrichIncludes e (calls s2) includes project (DefaultRefName e))
                              s2)))))"

section \<open>The crawl orchestrator: Crawl\<close>

text \<open>
  The consumer loop \<^verbatim>\<open>for p := range resultChan\<close>. The list is the sequence of projects
  the producer sent before it closed the channel; the loop ends when the channel is closed
  and drained, that is at the end of the list.
\<close>

fun crawl_loop :: "env \<Rightarrow> Context \<Rightarrow> gitlab_Project list \<Rightarrow> crawler \<Rightarrow> crawler" where
  "crawl_loop e ctx [] s = s"
| "crawl_loop e ctx (p # ps) s =
     (if PathWithNamespace p \<in> projectSet s then crawl_loop e ctx ps s
      else
        (case updateProjectInGraph e ctx p s of
           (Some err, s1) \<Rightarrow>
             crawl_loop e ctx ps
               (logger (Log Err (Some err)
                  [StrField ''ProjectPath'' (PathWithNamespace p), IntField ''ProjectID'' (ID p)]
                  ''failed to parse project'') s1)
         | (None, s1) \<Rightarrow> crawl_loop e ctx ps s1))"

definition Crawl :: "env \<Rightarrow> Context \<Rightarrow> gitlab_Project list \<Rightarrow> crawler \<Rightarrow> error option \<times> crawler"
  where
  "Crawl e ctx resultChan s =
     (let run = (\<lambda>s0. (None,
                  logger (Log Info None [] ''stopped crawling'')
                    (crawl_loop e ctx resultChan
                       (logger (Log Info None [] ''Starting to crawl...'') s0))))
      in if StorageCleanup e
         then (case RemoveAll e (logger (Log Info None [] ''Cleanup storage...'') s) of
                 (Some err, s0) \<Rightarrow> (Some err, s0)
               | (None, s0) \<Rightarrow> run s0)
         else run s)"

text \<open>The calls made between two states of a run.\<close>

definition new_calls :: "crawler \<Rightarrow> crawler \<Rightarrow> event list" where
  "new_calls s s' = drop (length (calls s)) (calls s')"

section \<open>Observations on a run\<close>

text \<open>The kinds of calls, and how often a node is created or a descriptor fetched.\<close>

fun is_write :: "event \<Rightarrow> bool" where
  "is_write (EvCreateProjectNode path r) = True"
| "is_write (EvCreateIncludeEdge edge r) = True"
| "is_write ev = False"

fun is_edge_write :: "event \<Rightarrow> bool" where
  "is_edge_write (EvCreateIncludeEdge edge r) = True"
| "is_edge_write ev = False"

fun is_node_write :: "string \<Rightarrow> event \<Rightarrow> bool" where
  "is_node_write path (EvCreateProjectNode p r) = (p = path)"
| "is_node_write path ev = False"

fun is_fetch :: "event \<Rightarrow> bool" where
  "is_fetch (EvGetRawFileFromProject pid file ref r) = True"
| "is_fetch ev = False"

fun fetched_id :: "event \<Rightarrow> int option" where
  "fetched_id (EvGetRawFileFromProject pid file ref r) = Some pid"
| "fetched_id ev = None"

definition node_writes :: "string \<Rightarrow> event list \<Rightarrow> nat" where
  "node_writes path evs = length (filter (is_node_write path) evs)"

text \<open>
  The descriptor fetches among \<open>evs\<close> that belong to the path \<open>x\<close>: those made with the
  ID of a project of \<open>ps\<close> whose path is \<open>x\<close>.
\<close>

definition fetches_of :: "string \<Rightarrow> gitlab_Project list \<Rightarrow> event list \<Rightarrow> nat" where
  "fetches_of x ps evs =
     length (filter (\<lambda>ev. list_ex (\<lambda>p. PathWithNamespace p = x \<and> fetched_id ev = Some (ID p)) ps)
               evs)"

text \<open>
  \<open>grows P s s'\<close>: from \<open>s\<close> to \<open>s'\<close> the visited set has only grown, the calls of \<open>s\<close> are
  still there, and the calls made since all satisfy \<open>P\<close>.
\<close>

definition grows :: "(event \<Rightarrow> bool) \<Rightarrow> crawler \<Rightarrow> crawler \<Rightarrow> bool" where
  "grows P s s' \<longleftrightarrow>
     projectSet s \<subseteq> projectSet s' \<and> prefix (calls s) (calls s') \<and> list_all P (new_calls s s')"

text \<open>
  The calls \<open>traverseIncludes parentName include\<close> makes when the storage accepts every
  write, and the projects it marks visited.
\<close>

fun persist_events :: "string \<Rightarrow> RemoteInclude \<Rightarrow> event list" where
  "persist_events parentName (RemoteInclude project ref files children) =
     EvCreateProjectNode project None
       # EvCreateIncludeEdge (IncludeEdge parentName project ref files) None
       # concat (map (\<lambda>ci. persist_events (Project ci) ci) children)"

fun projects_of :: "RemoteInclude \<Rightarrow> string set" where
  "projects_of (RemoteInclude project ref files children) =
     insert project (\<Union> (set (map projects_of children)))"

section \<open>The include resolver\<close>

text \<open>
  Modelled from the spec: the Include Resolver (section 4.4), whose code
  (\<open>parseIncludes\<close> and the recursive expansion behind it) is in a file of the package
  that is not part of the sources at hand. The grammar of the descriptor and the raw file
  fetch are parameters: \<open>parse\<close> gives the remote include directives of a descriptor
  (project, ref, files), \<open>fetch project file ref\<close> the content of a file.

  The resolver expands each directive by fetching and parsing the files it names, and
  attaches the directives found there as children. It bounds itself in both ways the spec
  names: a maximum depth, and the list \<open>expanded\<close> of the (project, ref, file) references
  expanded so far in this resolution, which it refuses to expand again. A nested file that
  cannot be fetched or parsed is recorded in \<open>branch_errors\<close> and contributes no
  children; its siblings are still expanded.
\<close>

type_synonym directive = "string \<times> string \<times> string list"

record resolver =
  expanded :: "(string \<times> string \<times> string) list"
  branch_errors :: "error list"

fun expand_files ::
    "(string \<Rightarrow> string \<Rightarrow> string \<Rightarrow> error + string) \<Rightarrow> (string \<Rightarrow> error + directive list) \<Rightarrow>
     nat \<Rightarrow> string \<Rightarrow> string \<Rightarrow> string list \<Rightarrow> resolver \<Rightarrow> RemoteInclude list \<times> resolver"
  and expand_list ::
    "(string \<Rightarrow> string \<Rightarrow> string \<Rightarrow> error + string) \<Rightarrow> (string \<Rightarrow> error + directive list) \<Rightarrow>
     nat \<Rightarrow> directive list \<Rightarrow> resolver \<Rightarrow> RemoteInclude list \<times> resolver"
where
  "expand_files fetch parse depth project ref [] st = ([], st)"
| "expand_files fetch parse 0 project ref (f # fs) st = ([], st)"
| "expand_files fetch parse (Suc d) project ref (f # fs) st =
     (if (project, ref, f) \<in> set (expanded st)
      then expand_files fetch parse (Suc d) project ref fs st
      else
        (let st1 = st\<lparr>expanded := expanded st @ [(project, ref, f)]\<rparr>
         in case fetch project f ref of
              Inl err \<Rightarrow>
                expand_files fetch parse (Suc d) project ref fs
                  (st1\<lparr>branch_errors := branch_errors st1 @ [err]\<rparr>)
            | Inr content \<Rightarrow>
                (case parse content of
                   Inl err \<Rightarrow>
                     expand_files fetch parse (Suc d) project ref fs
                       (st1\<lparr>branch_errors := branch_errors st1 @ [err]\<rparr>)
                 | Inr ds \<Rightarrow>
                     (case expand_list fetch parse d ds st1 of
                        (found, st2) \<Rightarrow>
                          (case expand_files fetch parse (Suc d) project ref fs st2 of
                             (rest, st3) \<Rightarrow> (found @ rest, st3))))))"
| "expand_list fetch parse d [] st = ([], st)"
| "expand_list fetch parse d ((project, ref, files) # ds) st =
     (case expand_files fetch parse d project ref files st of
        (children, st1) \<Rightarrow>
          (case expand_list fetch parse d ds st1 of
             (rest, st2) \<Rightarrow> (RemoteInclude project ref files children # rest, st2)))"

definition resolve_all ::
  "(string \<Rightarrow> string \<Rightarrow> string \<Rightarrow> error + string) \<Rightarrow> (string \<Rightarrow> error + directive list) \<Rightarrow>
   nat \<Rightarrow> directive list \<Rightarrow> RemoteInclude list \<times> resolver" where
  "resolve_all fetch parse maxDepth ds =
     expand_list fetch parse maxDepth ds \<lparr>expanded = [], branch_errors = []\<rparr>"

definition Resolve ::
  "(string \<Rightarrow> string \<Rightarrow> string \<Rightarrow> error + string) \<Rightarrow> (string \<Rightarrow> error + directive list) \<Rightarrow>
   nat \<Rightarrow> string \<Rightarrow> error + RemoteInclude list" where
  "Resolve fetch parse maxDepth descriptor =
     (case parse descriptor of
        Inl err \<Rightarrow> Inl err
      | Inr ds \<Rightarrow> Inr (fst (resolve_all fetch parse maxDepth ds)))"

text \<open>The number of fetch levels below an include.\<close>

fun include_depth :: "RemoteInclude \<Rightarrow> nat" where
  "include_depth (RemoteInclude project ref files children) =
     (if children = [] then 0 else Suc (Max (set (map include_depth children))))"

section \<open>Example runs\<close>

text \<open>The crawler as \<^verbatim>\<open>New\<close> returns it: nothing visited, nothing called.\<close>

definition New :: crawler where
  "New = \<lparr>projectSet = {}, calls = [], logs = []\<rparr>"

definition app :: gitlab_Project where
  "app = \<lparr>ID = 1, PathWithNamespace = ''team/app'', DefaultBranch = ''main''\<rparr>"

definition lib :: gitlab_Project where
  "lib = \<lparr>ID = 2, PathWithNamespace = ''team/lib'', DefaultBranch = ''main''\<rparr>"

text \<open>
  An enrichment that gives an include with an empty ref the default ref name, and an
  environment built from a storage that answers node writes by \<open>node\<close>, a fetch that
  always returns \<open>fetched\<close> and a parser that always returns \<open>parsed\<close>.
\<close>

definition default_ref :: "string \<Rightarrow> RemoteInclude \<Rightarrow> RemoteInclude" where
  "default_ref d i =
     (if Ref i = [] then RemoteInclude (Project i) d (Files i) (Children i) else i)"

definition env_of ::
  "(string \<Rightarrow> error option) \<Rightarrow> (error + string) \<Rightarrow> (error + RemoteInclude list) \<Rightarrow> env" where
  "env_of node fetched parsed =
     \<lparr>StorageCleanup = False,
      DefaultRefName = ''main'',
      storage_RemoveAll = (\<lambda>h. None),
      storage_CreateProjectNode = (\<lambda>h path. node path),
      storage_CreateIncludeEdge = (\<lambda>h edge. None),
      gitlab_GetRawFileFromProject = (\<lambda>h ctx pid file ref. fetched),
      parseIncludes = (\<lambda>h content. parsed),
      enrichIncludes = (\<lambda>h includes project d. map (default_ref d) includes)\<rparr>"

text \<open>A context that is open, and one that is cancelled as soon as a first call is made.\<close>

definition background :: Context where
  "background h = None"

definition cancelled_after_start :: Context where
  "cancelled_after_start h = (if h = [] then None else Some Canceled)"

text \<open>Two descriptors that include each other, for the resolver.\<close>

definition cyclic_fetch :: "string \<Rightarrow> string \<Rightarrow> string \<Rightarrow> error + string" where
  "cyclic_fetch project file ref =
     (if project = ''A'' then Inr ''a'' else if project = ''B'' then Inr ''b''
      else Inl ErrRawFileNotFound)"

definition cyclic_parse :: "string \<Rightarrow> error + directive list" where
  "cyclic_parse content =
     (if content = ''a'' then Inr [(''B'', ''main'', [''ci.yml''])]
      else if content = ''b'' then Inr [(''A'', ''main'', [''ci.yml''])]
      else Inl (ErrorString ''malformed''))"

section \<open>Cancellation before a project is processed\<close>

text \<open>
  C7. If the context is already cancelled when \<open>updateProjectInGraph\<close> is invoked, it
  returns the context's error at once and leaves the crawler as it was: the visited set
  is not changed, and no node, edge or fetch call is made.
\<close>

theorem C7_cancelled_before_processing:
  "ctx (calls s) = Some cerr \<Longrightarrow> updateProjectInGraph e ctx project s = (Some cerr, s)"
  by (simp add: updateProjectInGraph_def)

theorem C7_cancelled_before_processing_witness:
  "cancelled_after_start (calls (New\<lparr>calls := [EvRemoveAll None]\<rparr>)) = Some Canceled \<and>
   updateProjectInGraph (env_of (\<lambda>path. None) (Inr ''x'') (Inr [])) cancelled_after_start app
       (New\<lparr>calls := [EvRemoveAll None]\<rparr>)
     = (Some Canceled, New\<lparr>calls := [EvRemoveAll None]\<rparr>)"
proof -
  have h: "cancelled_after_start (calls (New\<lparr>calls := [EvRemoveAll None]\<rparr>)) = Some Canceled"
    by (simp add: cancelled_after_start_def)
  show ?thesis
    using h C7_cancelled_before_processing
            [where ctx = cancelled_after_start and s = "New\<lparr>calls := [EvRemoveAll None]\<rparr>"
               and cerr = Canceled]
    by simp
qed

end
